theory Spec2Isabelle
  imports Main "HOL-Library.Word" "HOL-Library.Multiset"
begin

section \<open>Payload types of the attribute interface\<close>

text \<open>
  The header \<^verbatim>\<open>include/matxscript/runtime/rockflow.h\<close> uses four scalar C++ types:
  \<^verbatim>\<open>int64_t\<close>, \<^verbatim>\<open>int\<close>, \<^verbatim>\<open>double\<close> and \<^verbatim>\<open>std::string\<close>, and two types of the runtime's
  container library, \<^verbatim>\<open>string_view\<close> and \<^verbatim>\<open>FTList<T>\<close>.

  \<^item> \<^verbatim>\<open>int64_t\<close> is a 64-bit word, read as a signed number by \<open>sint\<close>.
  \<^item> \<^verbatim>\<open>int\<close> is a 32-bit word (its width on the LP64 and LLP64 platforms the runtime
    is built for).
  \<^item> \<^verbatim>\<open>double\<close> is an IEEE-754 binary64 value, kept as its 64-bit pattern. No arithmetic
    is done on it in this module; values are only passed and returned, and the literal
    \<^verbatim>\<open>0.0\<close> is the all-zero pattern. Equality below is equality of bit patterns.
  \<^item> \<^verbatim>\<open>std::string\<close> is a character list.
\<close>

type_synonym int64_t = "64 word"

type_synonym cpp_int = "32 word"

datatype double = DoubleBits "64 word"

definition double_0_0 :: double where
  "double_0_0 = DoubleBits 0"

text \<open>
  Modelled from the spec: the container type \<^verbatim>\<open>string_view\<close> is declared in
  \<^verbatim>\<open>matxscript/runtime/container/string_view.h\<close>, which is not part of the sources at
  hand. The spec calls it a borrowed read-only string view; it is modelled by the
  character sequence it views, and the value-initialised view \<^verbatim>\<open>string_view{}\<close> is the
  empty one.
\<close>

type_synonym string_view = string

definition string_view_empty :: string_view where
  "string_view_empty = []"

text \<open>
  Modelled from the spec: the container type \<^verbatim>\<open>FTList<T>\<close> is declared outside the
  sources at hand. The spec calls it an ordered sequence; it is modelled by a list, and the
  value-initialised \<^verbatim>\<open>FTList<T>{}\<close> is the empty sequence.
\<close>

type_synonym 'a FTList = "'a list"

definition FTList_empty :: "'a FTList" where
  "FTList_empty = []"


section \<open>The class RockflowContext\<close>

text \<open>
  The class declares no data members. Its methods are virtual, so the object a method runs
  on may belong to a derived class; the type parameter stands for whatever members a
  derived class adds. An object of the class itself carries \<open>()\<close> there.
\<close>

datatype 'derived RockflowContext = RockflowContextObj (derived_members: 'derived)

text \<open>
  \<^verbatim>\<open>RockflowContext(const matxscript::runtime::Any&) {}\<close>: the constructor ignores its
  argument.
\<close>

definition RockflowContext_ctor :: "'any \<Rightarrow> unit RockflowContext" where
  "RockflowContext_ctor a = RockflowContextObj ()"

text \<open>
  Each method is written in state-passing form: it takes the object and its arguments and
  returns its result together with the object as the call leaves it. No method body throws,
  so there is no error branch.
\<close>

definition GetInt ::
  "'d RockflowContext \<Rightarrow> string \<Rightarrow> int64_t \<Rightarrow> int64_t \<times> 'd RockflowContext" where
  "GetInt self attr default_value = (0, self)"

definition GetDouble ::
  "'d RockflowContext \<Rightarrow> string \<Rightarrow> double \<Rightarrow> double \<times> 'd RockflowContext" where
  "GetDouble self attr default_value = (double_0_0, self)"

definition GetString ::
  "'d RockflowContext \<Rightarrow> string \<Rightarrow> string_view \<Rightarrow> string_view \<times> 'd RockflowContext" where
  "GetString self attr default_value = (string_view_empty, self)"

definition GetIntList ::
  "'d RockflowContext \<Rightarrow> string \<Rightarrow> int64_t FTList \<times> 'd RockflowContext" where
  "GetIntList self attr = (FTList_empty, self)"

definition GetDoubleList ::
  "'d RockflowContext \<Rightarrow> string \<Rightarrow> double FTList \<times> 'd RockflowContext" where
  "GetDoubleList self attr = (FTList_empty, self)"

definition GetStringList ::
  "'d RockflowContext \<Rightarrow> string \<Rightarrow> string_view FTList \<times> 'd RockflowContext" where
  "GetStringList self attr = (FTList_empty, self)"

definition SetInt ::
  "'d RockflowContext \<Rightarrow> string \<Rightarrow> cpp_int \<Rightarrow> cpp_int \<times> 'd RockflowContext" where
  "SetInt self attr val = (0, self)"

section \<open>The declared signatures of the class\<close>

text \<open>
  The member function declarations of the class, in the order of the header: name,
  parameters (name and type, \<^verbatim>\<open>const T&\<close> recorded as \<open>T\<close>) and return type. The header
  declares these seven member functions and no other.
\<close>

datatype cpp_type =
    Cpp_int
  | Cpp_int64_t
  | Cpp_double
  | Cpp_std_string
  | Cpp_string_view
  | Cpp_FTList cpp_type

record method_decl =
  decl_name :: string
  decl_params :: "(string \<times> cpp_type) list"
  decl_return :: cpp_type

definition RockflowContext_methods :: "method_decl list" where
  "RockflowContext_methods =
    [\<lparr>decl_name = ''GetInt'',
      decl_params = [(''attr'', Cpp_std_string), (''default_value'', Cpp_int64_t)],
      decl_return = Cpp_int64_t\<rparr>,
     \<lparr>decl_name = ''GetDouble'',
      decl_params = [(''attr'', Cpp_std_string), (''default_value'', Cpp_double)],
      decl_return = Cpp_double\<rparr>,
     \<lparr>decl_name = ''GetString'',
      decl_params = [(''attr'', Cpp_std_string), (''default_value'', Cpp_string_view)],
      decl_return = Cpp_string_view\<rparr>,
     \<lparr>decl_name = ''GetIntList'',
      decl_params = [(''attr'', Cpp_std_string)],
      decl_return = Cpp_FTList Cpp_int64_t\<rparr>,
     \<lparr>decl_name = ''GetDoubleList'',
      decl_params = [(''attr'', Cpp_std_string)],
      decl_return = Cpp_FTList Cpp_double\<rparr>,
     \<lparr>decl_name = ''GetStringList'',
      decl_params = [(''attr'', Cpp_std_string)],
      decl_return = Cpp_FTList Cpp_string_view\<rparr>,
     \<lparr>decl_name = ''SetInt'',
      decl_params = [(''attr'', Cpp_std_string), (''value'', Cpp_int)],
      decl_return = Cpp_int\<rparr>]"

text \<open>Member lookup by name: the first declaration of that name, if the class has one.\<close>

definition lookup_method :: "string \<Rightarrow> method_decl option" where
  "lookup_method n = find (\<lambda>m. decl_name m = n) RockflowContext_methods"

text \<open>The type of the parameter of a declared method with a given parameter name.\<close>

definition param_type :: "string \<Rightarrow> string \<Rightarrow> cpp_type option" where
  "param_type n p =
     (case lookup_method n of
        None \<Rightarrow> None
      | Some m \<Rightarrow> map_of (decl_params m) p)"

definition return_type :: "string \<Rightarrow> cpp_type option" where
  "return_type n = map_option decl_return (lookup_method n)"


section \<open>The builtin registry entries\<close>

text \<open>
  Modelled from the spec: the macro \<^verbatim>\<open>MATXSCRIPT_IR_DEFINE_HLO_METHOD\<close> and the builder
  methods \<^verbatim>\<open>set_num_inputs\<close> and \<^verbatim>\<open>add_argument\<close> are declared in
  \<^verbatim>\<open>matxscript/ir/hlo_builtin.h\<close> and \<^verbatim>\<open>hlo_builtin_macros.h\<close>, which are not part of the
  sources at hand. By the spec a registry entry is a static descriptor: operation name,
  fixed argument count, ordered list of (argument name, declared type, documentation)
  triples, and a binding to the underlying interface method. The macro opens an entry for
  (object type, operation, bound method) with no count set and no argument declared;
  \<^verbatim>\<open>set_num_inputs\<close> records the count; \<^verbatim>\<open>add_argument\<close> appends one descriptor.
\<close>

record AttrFieldInfo =
  arg_name :: string
  arg_type :: string
  arg_description :: string

record OpRegEntry =
  entry_prefix :: string
  entry_op :: string
  bound_method :: string
  num_inputs :: "int option"
  arguments :: "AttrFieldInfo list"

definition MATXSCRIPT_IR_DEFINE_HLO_METHOD :: "string \<Rightarrow> string \<Rightarrow> string \<Rightarrow> OpRegEntry" where
  "MATXSCRIPT_IR_DEFINE_HLO_METHOD prefix op method =
     \<lparr>entry_prefix = prefix, entry_op = op, bound_method = method,
      num_inputs = None, arguments = []\<rparr>"

definition set_num_inputs :: "int \<Rightarrow> OpRegEntry \<Rightarrow> OpRegEntry" where
  "set_num_inputs n e = e\<lparr>num_inputs := Some n\<rparr>"

definition add_argument :: "string \<Rightarrow> string \<Rightarrow> string \<Rightarrow> OpRegEntry \<Rightarrow> OpRegEntry" where
  "add_argument n t d e =
     e\<lparr>arguments := arguments e @ [\<lparr>arg_name = n, arg_type = t, arg_description = d\<rparr>]\<rparr>"

text \<open>
  A chain \<^verbatim>\<open>entry.f(..).g(..)\<close> of builder calls applies the calls from left to right.
\<close>

fun chain :: "'a \<Rightarrow> ('a \<Rightarrow> 'a) list \<Rightarrow> 'a" where
  "chain e [] = e"
| "chain e (f # fs) = chain (f e) fs"

text \<open>The eight entries of \<^verbatim>\<open>src/ir/hlo_builtin_rockflow.cc\<close>, in the order of the file.\<close>

definition rockflow_context_get_int :: OpRegEntry where
  "rockflow_context_get_int =
     chain (MATXSCRIPT_IR_DEFINE_HLO_METHOD ''rockflow_context'' ''get_int'' ''GetInt'')
       [set_num_inputs 3,
        add_argument ''self'' ''RockflowContext'' '''',
        add_argument ''attr_name'' ''bytes'' '''',
        add_argument ''default_value'' ''int'' '''']"

definition rockflow_context_get_double :: OpRegEntry where
  "rockflow_context_get_double =
     chain (MATXSCRIPT_IR_DEFINE_HLO_METHOD ''rockflow_context'' ''get_double'' ''GetDouble'')
       [set_num_inputs 3,
        add_argument ''self'' ''RockflowContext'' '''',
        add_argument ''attr_name'' ''bytes'' '''',
        add_argument ''default_value'' ''float'' '''']"

definition rockflow_context_get_string :: OpRegEntry where
  "rockflow_context_get_string =
     chain (MATXSCRIPT_IR_DEFINE_HLO_METHOD ''rockflow_context'' ''get_string'' ''GetString'')
       [set_num_inputs 3,
        add_argument ''self'' ''RockflowContext'' '''',
        add_argument ''attr_name'' ''bytes'' '''',
        add_argument ''default_value'' ''bytes'' '''']"

definition rockflow_context_get_int_list :: OpRegEntry where
  "rockflow_context_get_int_list =
     chain (MATXSCRIPT_IR_DEFINE_HLO_METHOD ''rockflow_context'' ''get_int_list'' ''GetIntList'')
       [set_num_inputs 2,
        add_argument ''self'' ''RockflowContext'' '''',
        add_argument ''attr_name'' ''bytes'' '''']"

definition rockflow_context_get_double_list :: OpRegEntry where
  "rockflow_context_get_double_list =
     chain (MATXSCRIPT_IR_DEFINE_HLO_METHOD ''rockflow_context'' ''get_double_list''
              ''GetDoubleList'')
       [set_num_inputs 2,
        add_argument ''self'' ''RockflowContext'' '''',
        add_argument ''attr_name'' ''bytes'' '''']"

definition rockflow_context_get_string_list :: OpRegEntry where
  "rockflow_context_get_string_list =
     chain (MATXSCRIPT_IR_DEFINE_HLO_METHOD ''rockflow_context'' ''get_string_list''
              ''GetStringList'')
       [set_num_inputs 2,
        add_argument ''self'' ''RockflowContext'' '''',
        add_argument ''attr_name'' ''bytes'' '''']"

definition rockflow_context_get_item_count :: OpRegEntry where
  "rockflow_context_get_item_count =
     chain (MATXSCRIPT_IR_DEFINE_HLO_METHOD ''rockflow_context'' ''get_item_count''
              ''GetItemCount'')
       [set_num_inputs 1,
        add_argument ''self'' ''RockflowContext'' '''']"

definition rockflow_context_get_item_attr_assigner :: OpRegEntry where
  "rockflow_context_get_item_attr_assigner =
     chain (MATXSCRIPT_IR_DEFINE_HLO_METHOD ''rockflow_context'' ''get_item_attr_assigner''
              ''GetItemAttrAssigner'')
       [set_num_inputs 2,
        add_argument ''self'' ''RockflowContext'' '''',
        add_argument ''index'' ''int'' '''']"

definition rockflow_context_entries :: "OpRegEntry list" where
  "rockflow_context_entries =
     [rockflow_context_get_int, rockflow_context_get_double, rockflow_context_get_string,
      rockflow_context_get_int_list, rockflow_context_get_double_list,
      rockflow_context_get_string_list, rockflow_context_get_item_count,
      rockflow_context_get_item_attr_assigner]"

text \<open>The entries that bind to a method of a given name.\<close>

definition entries_bound_to :: "string \<Rightarrow> OpRegEntry list" where
  "entries_bound_to n = filter (\<lambda>e. bound_method e = n) rockflow_context_entries"

text \<open>
  An entry agrees in arity with the class when the method it binds to is declared and the
  entry's argument count is the method's parameter count plus one for the receiver.
\<close>

definition arity_matches :: "OpRegEntry \<Rightarrow> bool" where
  "arity_matches e =
     (case lookup_method (bound_method e) of
        None \<Rightarrow> False
      | Some m \<Rightarrow> num_inputs e = Some (int (length (decl_params m)) + 1))"


section \<open>Sequences of calls\<close>

text \<open>
  A call names one of the seven methods with its arguments; \<open>invoke\<close> performs it on an
  object and \<open>run_calls\<close> performs a sequence of calls one after the other, each on the
  object as the previous call left it.
\<close>

datatype call =
    Call_GetInt string int64_t
  | Call_GetDouble string double
  | Call_GetString string string_view
  | Call_GetIntList string
  | Call_GetDoubleList string
  | Call_GetStringList string
  | Call_SetInt string cpp_int

datatype ret =
    Ret_int64_t int64_t
  | Ret_double double
  | Ret_string_view string_view
  | Ret_FTList_int64_t "int64_t FTList"
  | Ret_FTList_double "double FTList"
  | Ret_FTList_string_view "string_view FTList"
  | Ret_int cpp_int

fun method_of :: "call \<Rightarrow> string" where
  "method_of (Call_GetInt attr d) = ''GetInt''"
| "method_of (Call_GetDouble attr d) = ''GetDouble''"
| "method_of (Call_GetString attr d) = ''GetString''"
| "method_of (Call_GetIntList attr) = ''GetIntList''"
| "method_of (Call_GetDoubleList attr) = ''GetDoubleList''"
| "method_of (Call_GetStringList attr) = ''GetStringList''"
| "method_of (Call_SetInt attr v) = ''SetInt''"

fun invoke :: "'d RockflowContext \<Rightarrow> call \<Rightarrow> ret \<times> 'd RockflowContext" where
  "invoke self (Call_GetInt attr d) = apfst Ret_int64_t (GetInt self attr d)"
| "invoke self (Call_GetDouble attr d) = apfst Ret_double (GetDouble self attr d)"
| "invoke self (Call_GetString attr d) = apfst Ret_string_view (GetString self attr d)"
| "invoke self (Call_GetIntList attr) = apfst Ret_FTList_int64_t (GetIntList self attr)"
| "invoke self (Call_GetDoubleList attr) = apfst Ret_FTList_double (GetDoubleList self attr)"
| "invoke self (Call_GetStringList attr) =
     apfst Ret_FTList_string_view (GetStringList self attr)"
| "invoke self (Call_SetInt attr v) = apfst Ret_int (SetInt self attr v)"

fun run_calls :: "'d RockflowContext \<Rightarrow> call list \<Rightarrow> ret list \<times> 'd RockflowContext" where
  "run_calls self [] = ([], self)"
| "run_calls self (c # cs) =
     (case invoke self c of
        (r, self') \<Rightarrow> (case run_calls self' cs of (rs, self'') \<Rightarrow> (r # rs, self'')))"


section \<open>Auxiliary facts\<close>

lemmas RockflowContext_defs =
  GetInt_def GetDouble_def GetString_def GetIntList_def GetDoubleList_def
  GetStringList_def SetInt_def

lemmas entry_defs =
  rockflow_context_entries_def
  rockflow_context_get_int_def rockflow_context_get_double_def
  rockflow_context_get_string_def rockflow_context_get_int_list_def
  rockflow_context_get_double_list_def rockflow_context_get_string_list_def
  rockflow_context_get_item_count_def rockflow_context_get_item_attr_assigner_def
  MATXSCRIPT_IR_DEFINE_HLO_METHOD_def set_num_inputs_def add_argument_def

lemmas decl_defs = lookup_method_def RockflowContext_methods_def

lemma invoke_frame: "snd (invoke self c) = self"
  by (cases c) (simp_all add: RockflowContext_defs)

lemma invoke_constant:
  fixes self :: "'d RockflowContext" and other :: "'e RockflowContext"
  assumes "method_of c = method_of c'"
  shows "fst (invoke self c) = fst (invoke other c')"
  using assms by (cases c; cases c') (simp_all add: RockflowContext_defs)

lemma run_calls_eq: "run_calls self cs = (map (\<lambda>c. fst (invoke self c)) cs, self)"
proof (induction cs)
  case Nil
  show ?case by simp
next
  case (Cons c cs)
  have "invoke self c = (fst (invoke self c), snd (invoke self c))"
    by simp
  then have "invoke self c = (fst (invoke self c), self)"
    by (simp only: invoke_frame)
  then obtain r where r: "invoke self c = (r, self)" ..
  then have "fst (invoke self c) = r"
    by simp
  with r Cons.IH show ?case
    by simp
qed

lemma labelled_results:
  "zip cs (fst (run_calls self cs)) = map (\<lambda>c. (c, fst (invoke self c))) cs"
  by (induction cs) (simp_all add: run_calls_eq)

lemma run_calls_permuted:
  fixes self :: "'d RockflowContext" and other :: "'e RockflowContext"
  assumes "mset cs = mset cs'"
  shows "mset (zip cs (fst (run_calls self cs))) = mset (zip cs' (fst (run_calls other cs')))"
proof -
  have same: "(\<lambda>c. (c, fst (invoke self c))) = (\<lambda>c. (c, fst (invoke other c)))"
    by (rule ext) (simp add: invoke_constant [of _ _ self other])
  have "mset (zip cs (fst (run_calls self cs)))
          = image_mset (\<lambda>c. (c, fst (invoke self c))) (mset cs)"
    by (simp add: labelled_results)
  also have "\<dots> = image_mset (\<lambda>c. (c, fst (invoke other c))) (mset cs')"
    by (simp only: same assms)
  also have "\<dots> = mset (zip cs' (fst (run_calls other cs')))"
    by (simp add: labelled_results)
  finally show ?thesis .
qed


section \<open>Default behaviour of the methods\<close>

text \<open>
  C5: absent an override, every method of the class returns the zero value or the empty
  container of its return type, for every object, attribute name and supplied default:
  GetInt returns 0, GetDouble returns 0.0, GetString returns the empty string view, the
  three list getters return the empty sequence, and SetInt returns 0.
\<close>

theorem default_methods_return_zero_or_empty:
  "fst (GetInt self attr di) = 0
   \<and> fst (GetDouble self attr dd) = double_0_0
   \<and> fst (GetString self attr ds) = string_view_empty
   \<and> fst (GetIntList self attr) = FTList_empty
   \<and> fst (GetDoubleList self attr) = FTList_empty
   \<and> fst (GetStringList self attr) = FTList_empty
   \<and> fst (SetInt self attr v) = 0"
  by (simp add: RockflowContext_defs)

text \<open>
  C1, as the code has it: the default implementations of GetInt, GetDouble and GetString do
  not read their \<^verbatim>\<open>default_value\<close> parameter. For every object, attribute name and
  supplied default they return 0, 0.0 and the empty string view, so the result is the
  supplied default exactly when that default is itself the zero value.
\<close>

theorem default_scalar_getters_ignore_default:
  "fst (GetInt self attr di) = 0
   \<and> (fst (GetInt self attr di) = di \<longleftrightarrow> di = 0)
   \<and> fst (GetDouble self attr dd) = double_0_0
   \<and> (fst (GetDouble self attr dd) = dd \<longleftrightarrow> dd = double_0_0)
   \<and> fst (GetString self attr ds) = string_view_empty
   \<and> (fst (GetString self attr ds) = ds \<longleftrightarrow> ds = string_view_empty)"
  by (auto simp add: GetInt_def GetDouble_def GetString_def)

text \<open>
  C1 as stated fails: on a freshly constructed object of the class, GetInt for the
  attribute \<^verbatim>\<open>"score"\<close> with the default 7 does not return 7.
\<close>

theorem GetInt_default_counterexample:
  "fst (GetInt (RockflowContext_ctor ()) ''score'' 7) \<noteq> 7"
  by (simp add: GetInt_def)

text \<open>
  C7: the default implementations of GetIntList, GetDoubleList and GetStringList return a
  sequence of length 0 for every object and every attribute name. The three functions are
  total and have no error result, as the method bodies have no failing path.
\<close>

theorem default_list_getters_return_length_0:
  "length (fst (GetIntList self attr)) = 0
   \<and> length (fst (GetDoubleList self attr)) = 0
   \<and> length (fst (GetStringList self attr)) = 0"
  by (simp add: GetIntList_def GetDoubleList_def GetStringList_def FTList_empty_def)

text \<open>
  C10: every default method leaves the object as it was and returns a value fixed by the
  method alone: two calls of the same method return the same value whatever the objects,
  attribute names and other arguments are. Hence a sequence of calls leaves the object
  unchanged, returns the same results on any two objects, and a reordering of the calls
  gives each call the result it had before.
\<close>

theorem default_calls_frame_and_constant_results:
  fixes self :: "'d RockflowContext" and other :: "'e RockflowContext"
  shows "snd (invoke self c) = self
   \<and> (method_of c = method_of c' \<longrightarrow> fst (invoke self c) = fst (invoke other c'))
   \<and> snd (run_calls self cs) = self
   \<and> fst (run_calls self cs) = fst (run_calls other cs)
   \<and> (mset cs = mset cs' \<longrightarrow>
        mset (zip cs (fst (run_calls self cs))) = mset (zip cs' (fst (run_calls other cs'))))"
proof (intro conjI impI)
  show "snd (invoke self c) = self"
    by (rule invoke_frame)
  show "fst (invoke self c) = fst (invoke other c')" if "method_of c = method_of c'"
    using that by (rule invoke_constant)
  show "snd (run_calls self cs) = self"
    by (simp add: run_calls_eq)
  show "fst (run_calls self cs) = fst (run_calls other cs)"
    by (simp add: run_calls_eq invoke_constant [of _ _ self other])
  show "mset (zip cs (fst (run_calls self cs))) = mset (zip cs' (fst (run_calls other cs')))"
    if "mset cs = mset cs'"
    using that by (rule run_calls_permuted)
qed

text \<open>
  An instance of C10: GetInt called with two different names and defaults on two different
  objects, and a SetInt and a GetInt call run in both orders.
\<close>

theorem default_calls_frame_and_constant_results_witness:
  "method_of (Call_GetInt ''a'' 1) = method_of (Call_GetInt ''b'' 2)
   \<and> fst (invoke (RockflowContext_ctor ()) (Call_GetInt ''a'' 1))
       = fst (invoke (RockflowContextObj True) (Call_GetInt ''b'' 2))
   \<and> mset [Call_SetInt ''flag'' 1, Call_GetInt ''x'' 5]
       = mset [Call_GetInt ''x'' 5, Call_SetInt ''flag'' 1]
   \<and> mset (zip [Call_SetInt ''flag'' 1, Call_GetInt ''x'' 5]
             (fst (run_calls (RockflowContext_ctor ())
                     [Call_SetInt ''flag'' 1, Call_GetInt ''x'' 5])))
       = mset (zip [Call_GetInt ''x'' 5, Call_SetInt ''flag'' 1]
             (fst (run_calls (RockflowContextObj True)
                     [Call_GetInt ''x'' 5, Call_SetInt ''flag'' 1])))"
proof -
  have m: "method_of (Call_GetInt ''a'' 1) = method_of (Call_GetInt ''b'' 2)"
    by simp
  have p: "mset [Call_SetInt ''flag'' 1, Call_GetInt ''x'' 5]
             = mset [Call_GetInt ''x'' 5, Call_SetInt ''flag'' 1]"
    by (simp add: add_mset_commute)
  show ?thesis
    using m p
      default_calls_frame_and_constant_results
        [where self = "RockflowContext_ctor ()" and other = "RockflowContextObj True"
           and c = "Call_GetInt ''a'' 1" and c' = "Call_GetInt ''b'' 2"
           and cs = "[Call_SetInt ''flag'' 1, Call_GetInt ''x'' 5]"
           and cs' = "[Call_GetInt ''x'' 5, Call_SetInt ''flag'' 1]"]
    by blast
qed


section \<open>The declared types\<close>

text \<open>
  C6, as the code has it: the integer values read through the interface are of type
  \<^verbatim>\<open>int64_t\<close>: the return type and the default parameter of GetInt, and the element type
  of the sequence GetIntList returns. The value parameter of SetInt is of type \<^verbatim>\<open>int\<close>.
\<close>

theorem integer_types_of_the_interface:
  "return_type ''GetInt'' = Some Cpp_int64_t
   \<and> param_type ''GetInt'' ''default_value'' = Some Cpp_int64_t
   \<and> return_type ''GetIntList'' = Some (Cpp_FTList Cpp_int64_t)
   \<and> param_type ''SetInt'' ''value'' = Some Cpp_int"
  by (simp add: return_type_def param_type_def decl_defs)

text \<open>
  C6 as stated fails: the value parameter of SetInt is not of type \<^verbatim>\<open>int64_t\<close>.
\<close>

theorem SetInt_value_not_int64_counterexample:
  "param_type ''SetInt'' ''value'' \<noteq> Some Cpp_int64_t"
  by (simp add: param_type_def decl_defs)


section \<open>The registry entries against the class\<close>

text \<open>
  C8: for every registered entry of the rockflow context, the argument count given to
  \<^verbatim>\<open>set_num_inputs\<close> is the number of descriptors declared by \<^verbatim>\<open>add_argument\<close>.
\<close>

theorem num_inputs_is_number_of_arguments:
  "\<forall>e \<in> set rockflow_context_entries. num_inputs e = Some (int (length (arguments e)))"
  by (simp add: entry_defs)

text \<open>An instance of C8: the entry \<^verbatim>\<open>get_int\<close> declares three inputs and three arguments.\<close>

theorem num_inputs_is_number_of_arguments_witness:
  "rockflow_context_get_int \<in> set rockflow_context_entries
   \<and> num_inputs rockflow_context_get_int
       = Some (int (length (arguments rockflow_context_get_int)))
   \<and> length (arguments rockflow_context_get_int) = 3"
proof -
  have m: "rockflow_context_get_int \<in> set rockflow_context_entries"
    by (simp add: rockflow_context_entries_def)
  have n: "length (arguments rockflow_context_get_int) = 3"
    by (simp add: entry_defs)
  from m n num_inputs_is_number_of_arguments [THEN bspec, OF m] show ?thesis
    by simp
qed

text \<open>
  C9: for every registered entry of the rockflow context, the first declared argument is
  the context itself: it is named \<^verbatim>\<open>self\<close> and its declared type is
  \<^verbatim>\<open>RockflowContext\<close>.
\<close>

theorem first_argument_is_self:
  "\<forall>e \<in> set rockflow_context_entries.
     arguments e \<noteq> []
     \<and> arg_name (hd (arguments e)) = ''self''
     \<and> arg_type (hd (arguments e)) = ''RockflowContext''"
  by (simp add: entry_defs)

text \<open>An instance of C9: the first argument of the entry \<^verbatim>\<open>get_item_attr_assigner\<close>.\<close>

theorem first_argument_is_self_witness:
  "rockflow_context_get_item_attr_assigner \<in> set rockflow_context_entries
   \<and> arguments rockflow_context_get_item_attr_assigner \<noteq> []
   \<and> arg_name (hd (arguments rockflow_context_get_item_attr_assigner)) = ''self''
   \<and> arg_type (hd (arguments rockflow_context_get_item_attr_assigner)) = ''RockflowContext''"
proof -
  have m: "rockflow_context_get_item_attr_assigner \<in> set rockflow_context_entries"
    by (simp add: rockflow_context_entries_def)
  from m first_argument_is_self [THEN bspec, OF m] show ?thesis
    by simp
qed

text \<open>
  C2, on the code: the entries \<^verbatim>\<open>get_item_count\<close> and \<^verbatim>\<open>get_item_attr_assigner\<close> bind to
  the methods GetItemCount and GetItemAttrAssigner, which the class does not declare, so
  there is no signature for them to match. The six other entries bind to declared methods
  and agree with them in arity, the receiver counted.
\<close>

theorem entries_bound_to_undeclared_methods:
  "lookup_method (bound_method rockflow_context_get_item_count) = None
   \<and> lookup_method (bound_method rockflow_context_get_item_attr_assigner) = None
   \<and> map arity_matches rockflow_context_entries
       = [True, True, True, True, True, True, False, False]"
  by (simp add: entry_defs arity_matches_def decl_defs)

text \<open>
  C3, on the code: the registry entry \<^verbatim>\<open>get_item_count\<close> binds to a method named
  GetItemCount, and the class declares no member of that name, so there is no default
  GetItemCount to return 0.
\<close>

theorem GetItemCount_not_declared:
  "bound_method rockflow_context_get_item_count = ''GetItemCount''
   \<and> lookup_method ''GetItemCount'' = None
   \<and> ''GetItemCount'' \<notin> set (map decl_name RockflowContext_methods)"
  by (simp add: entry_defs decl_defs)

text \<open>
  C4, as the code has it: each of the six read operations the class declares (GetInt,
  GetDouble, GetString, GetIntList, GetDoubleList, GetStringList) has exactly one registry
  entry bound to it, and the write operation SetInt has none.
\<close>

theorem one_entry_per_declared_getter:
  "\<forall>m \<in> set RockflowContext_methods.
     length (entries_bound_to (decl_name m)) = (if decl_name m = ''SetInt'' then 0 else 1)"
  by (simp add: entries_bound_to_def entry_defs RockflowContext_methods_def)

text \<open>An instance of C4: the first declared method, GetInt, has one entry.\<close>

theorem one_entry_per_declared_getter_witness:
  "hd RockflowContext_methods \<in> set RockflowContext_methods
   \<and> decl_name (hd RockflowContext_methods) = ''GetInt''
   \<and> length (entries_bound_to ''GetInt'') = 1"
proof -
  have m: "hd RockflowContext_methods \<in> set RockflowContext_methods"
    by (simp add: RockflowContext_methods_def)
  have n: "decl_name (hd RockflowContext_methods) = ''GetInt''"
    by (simp add: RockflowContext_methods_def)
  from m n one_entry_per_declared_getter [THEN bspec, OF m] show ?thesis
    by simp
qed

text \<open>
  C4 as stated fails: the class declares SetInt, and the number of registry entries bound
  to SetInt is not one.
\<close>

theorem SetInt_entry_counterexample:
  "lookup_method ''SetInt'' \<noteq> None \<and> length (entries_bound_to ''SetInt'') \<noteq> 1"
  by (simp add: entries_bound_to_def entry_defs decl_defs)

end
